theory Spec2Isabelle
  imports Main "HOL-Library.Word"
begin

unbundle bit_operations_syntax

section \<open>Data model\<close>

subsection \<open>Errors\<close>

text \<open>
  Every \<^verbatim>\<open>throw\<close> and every failed \<^verbatim>\<open>LTC_CHECK\<close> of the source is a value of this
  type; a fallible function returns \<open>error + 'a\<close> with \<open>Inl\<close> for the failure.
  The kinds are the four that section 7 of the specification names.
\<close>

datatype error = InvalidArgument | IndexOutOfRange | TypeMismatch | InferenceFailure

subsection \<open>OpKind, Shape, metadata\<close>

text \<open>
  Modelled from the spec: \<^verbatim>\<open>OpKind\<close> is declared outside the sources at hand; section 3
  describes it as an immutable value of a namespace and an operation name.
\<close>

record OpKind =
  namespace :: string
  op_name :: string

text \<open>
  Modelled from the spec: \<^verbatim>\<open>lazy_tensors::Shape\<close> is declared outside the sources at hand.
  Section 3: a shape is a leaf, with an element type and an ordered sequence of dimensions,
  or a tuple of shapes. \<open>Shape_default\<close> stands for the default-constructed
  \<^verbatim>\<open>lazy_tensors::Shape()\<close> that the constructors without a shape store, and
  \<open>IsTuple\<close> tells the two forms apart.
\<close>

type_synonym PrimitiveType = string

datatype Shape =
    LeafShape PrimitiveType "int list"
  | TupleShape "Shape list"

definition Shape_default :: Shape where
  "Shape_default = LeafShape ''INVALID'' []"

fun IsTuple :: "Shape \<Rightarrow> bool" where
  "IsTuple (TupleShape ss) = True"
| "IsTuple (LeafShape t ds) = False"

text \<open>
  Modelled from the spec: \<^verbatim>\<open>Shape::rank\<close>. Section 3: a leaf shape's rank equals its
  dimension count. A tuple has no dimensions of its own.
\<close>

fun rank :: "Shape \<Rightarrow> nat" where
  "rank (LeafShape t ds) = length ds"
| "rank (TupleShape ss) = 0"

text \<open>
  Modelled from the spec: \<^verbatim>\<open>Shape::tuple_shapes\<close>. Section 4.3: the \<open>index\<close>-th element
  of the tuple, failing with IndexOutOfRange when the index is out of bounds. A leaf has
  no element shapes, so every index is out of bounds there.
\<close>

fun tuple_shapes :: "Shape \<Rightarrow> nat \<Rightarrow> error + Shape" where
  "tuple_shapes (TupleShape ss) i = (if i < length ss then Inr (ss ! i) else Inl IndexOutOfRange)"
| "tuple_shapes (LeafShape t ds) i = Inl IndexOutOfRange"

record SourceLocation =
  file_name :: string
  function_name :: string
  line_no :: int

record MetaData =
  scope :: string
  frame_info :: "SourceLocation list"

subsection \<open>Hash primitives\<close>

text \<open>
  The hash type \<^verbatim>\<open>lazy_tensors::hash_t\<close> and the functions
  \<^verbatim>\<open>lazy_tensors::util::HashCombine\<close>, \<^verbatim>\<open>lazy_tensors::util::Hash\<close>, \<^verbatim>\<open>OpKind::hash\<close>,
  \<^verbatim>\<open>Value::hash\<close> and \<^verbatim>\<open>Shape::ToString\<close> are used by the sources at hand and
  defined elsewhere. They are parameters of the model: \<open>'h\<close> is the hash type, \<open>'v\<close> the
  type of an operand (\<^verbatim>\<open>Value\<close>), and a record of type \<open>('v, 'h) prims\<close> carries the
  functions. Every definition below that hashes takes the record as its first argument.
\<close>

record ('v, 'h) prims =
  HashCombine :: "'h \<Rightarrow> 'h \<Rightarrow> 'h"
  Hash_int :: "int \<Rightarrow> 'h"
  Hash_string :: "string \<Rightarrow> 'h"
  OpKind_hash :: "OpKind \<Rightarrow> 'h"
  Value_hash :: "'v \<Rightarrow> 'h"
  Shape_ToString :: "Shape \<Rightarrow> string"

subsection \<open>Node and TsNode\<close>

text \<open>
  The base class \<^verbatim>\<open>Node\<close> with the members the constructor calls of \<^verbatim>\<open>TsNode.cpp\<close>
  initialise; \<^verbatim>\<open>TsNode\<close> extends it with the member \<^verbatim>\<open>shape_\<close>.
\<close>

record ('v, 'h) Node =
  op :: OpKind
  operands :: "'v list"
  num_outputs :: nat
  node_hash :: 'h
  dag_hash :: 'h
  metadata :: MetaData

record ('v, 'h) TsNode = "('v, 'h) Node" +
  shape :: Shape

text \<open>
  Modelled from the spec: \<^verbatim>\<open>Node::hash\<close>. Section 4.2: \<open>hash()\<close> returns the dag hash.
\<close>

definition hash :: "('v, 'h, 'z) Node_scheme \<Rightarrow> 'h" where
  "hash n = dag_hash n"

section \<open>TsNode.cpp\<close>

subsection \<open>OperandHashes\<close>

text \<open>
  The \<^verbatim>\<open>for\<close> loop over the operands, with the running \<^verbatim>\<open>hash\<close> as accumulator.
\<close>

fun OperandHashes :: "('v, 'h) prims \<Rightarrow> 'v list \<Rightarrow> 'h \<Rightarrow> 'h" where
  "OperandHashes P [] seed = seed"
| "OperandHashes P (operand # rest) seed =
     OperandHashes P rest (HashCombine P seed (Value_hash P operand))"

subsection \<open>Constructors\<close>

text \<open>
  Modelled from the spec: the base constructor
  \<^verbatim>\<open>Node(op, operands, num_outputs, node_hash, dag_hash)\<close> is outside the sources at
  hand. It initialises the members of section 3 from its arguments, the last two of which
  the call in \<^verbatim>\<open>TsNode.cpp\<close> labels \<^verbatim>\<open>/* node_hash */\<close> and \<^verbatim>\<open>/* dag_hash */\<close>. The
  metadata come from the ambient scope and are an argument here.
\<close>

definition Node_new :: "OpKind \<Rightarrow> 'v list \<Rightarrow> nat \<Rightarrow> 'h \<Rightarrow> 'h \<Rightarrow> MetaData \<Rightarrow> ('v, 'h) Node" where
  "Node_new opk ops n nh dh md =
     \<lparr>op = opk, operands = ops, num_outputs = n, node_hash = nh, dag_hash = dh, metadata = md\<rparr>"

text \<open>
  Modelled from the spec: the base constructor \<^verbatim>\<open>Node(op, num_outputs, node_hash)\<close> is
  outside the sources at hand. A node without operands has nothing to fold into its node
  hash, so its dag hash is its node hash (glossary, "DAG hash").
\<close>

definition Node_new_leaf :: "OpKind \<Rightarrow> nat \<Rightarrow> 'h \<Rightarrow> MetaData \<Rightarrow> ('v, 'h) Node" where
  "Node_new_leaf opk n nh md =
     \<lparr>op = opk, operands = [], num_outputs = n, node_hash = nh, dag_hash = nh, metadata = md\<rparr>"

text \<open>
  \<^verbatim>\<open>TsNode(OpKind op, OpList operands, Shape shape, size_t num_outputs, hash_t hash_seed)\<close>
\<close>

definition TsNode_new ::
  "('v, 'h) prims \<Rightarrow> OpKind \<Rightarrow> 'v list \<Rightarrow> Shape \<Rightarrow> nat \<Rightarrow> 'h \<Rightarrow> MetaData \<Rightarrow> ('v, 'h) TsNode" where
  "TsNode_new P opk ops sh n hash_seed md =
     Node.extend
       (Node_new opk ops n
          (HashCombine P (OpKind_hash P opk) hash_seed)
          (OperandHashes P ops (HashCombine P (OpKind_hash P opk) hash_seed))
          md)
       (TsNode.fields sh)"

text \<open>
  \<^verbatim>\<open>TsNode(OpKind op, OpList operands, size_t num_outputs, hash_t hash_seed)\<close>: the shape
  is left default-constructed.
\<close>

definition TsNode_new_unshaped ::
  "('v, 'h) prims \<Rightarrow> OpKind \<Rightarrow> 'v list \<Rightarrow> nat \<Rightarrow> 'h \<Rightarrow> MetaData \<Rightarrow> ('v, 'h) TsNode" where
  "TsNode_new_unshaped P opk ops n hash_seed md = TsNode_new P opk ops Shape_default n hash_seed md"

subsection \<open>GetOpHash and the leaf constructor\<close>

text \<open>
  \<^verbatim>\<open>Shape::IsDynamicMode()\<close> reads a process-wide flag; it is the argument \<open>dyn\<close>.
\<close>

definition GetOpHash :: "('v, 'h) prims \<Rightarrow> bool \<Rightarrow> OpKind \<Rightarrow> Shape \<Rightarrow> 'h \<Rightarrow> 'h" where
  "GetOpHash P dyn opk sh hash_seed =
     (if dyn then
        (let h = HashCombine P (OpKind_hash P opk) (Hash_int P (int (rank sh)))
         in HashCombine P h hash_seed)
      else
        (let h = HashCombine P (OpKind_hash P opk) (Hash_string P (Shape_ToString P sh))
         in HashCombine P h hash_seed))"

text \<open>
  \<^verbatim>\<open>TsNode(OpKind op, Shape shape, size_t num_outputs, hash_t hash_seed)\<close>
\<close>

definition TsNode_new_leaf ::
  "('v, 'h) prims \<Rightarrow> bool \<Rightarrow> OpKind \<Rightarrow> Shape \<Rightarrow> nat \<Rightarrow> 'h \<Rightarrow> MetaData \<Rightarrow> ('v, 'h) TsNode" where
  "TsNode_new_leaf P dyn opk sh n hash_seed md =
     Node.extend (Node_new_leaf opk n (GetOpHash P dyn opk sh hash_seed) md) (TsNode.fields sh)"

subsection \<open>shape() and shape(output_index)\<close>

text \<open>
  \<^verbatim>\<open>shape()\<close> is the selector \<open>shape\<close> of the record. In \<^verbatim>\<open>shape(output_index)\<close> the
  macro \<^verbatim>\<open>LTC_CHECK_EQ(output_index, 0)\<close> is defined outside the sources at hand; by
  section 4.3 of the specification its failure is an InvalidArgument.
\<close>

definition shape_at :: "('v, 'h) TsNode \<Rightarrow> nat \<Rightarrow> error + Shape" where
  "shape_at n output_index =
     (if IsTuple (shape n) then tuple_shapes (shape n) output_index
      else if output_index = 0 then Inr (shape n)
      else Inl InvalidArgument)"

subsection \<open>ShapeCache\<close>

text \<open>
  Modelled from the spec: the class template \<^verbatim>\<open>lazy_tensors::util::Cache\<close> behind
  \<^verbatim>\<open>ShapeCache\<close> is outside the sources at hand. Section 4.4: a mapping from a hash to a
  shape with a bounded capacity. The entries are kept most recently used first, without
  duplicate keys; a new cache is empty.
\<close>

record 'h Cache =
  max_size :: nat
  element_list :: "('h \<times> Shape) list"

definition Cache_new :: "nat \<Rightarrow> 'h Cache" where
  "Cache_new n = \<lparr>max_size = n, element_list = []\<rparr>"

definition move_to_front :: "'h \<Rightarrow> Shape \<Rightarrow> ('h \<times> Shape) list \<Rightarrow> ('h \<times> Shape) list" where
  "move_to_front k v es = (k, v) # filter (\<lambda>e. fst e \<noteq> k) es"

text \<open>
  Modelled from the spec: \<^verbatim>\<open>Cache::Get\<close>. Section 4.4: \<open>get(key)\<close> gives the shape or a
  miss. A hit makes the entry the most recently used one; a miss changes nothing.
\<close>

definition Cache_Get :: "'h \<Rightarrow> 'h Cache \<Rightarrow> Shape option \<times> 'h Cache" where
  "Cache_Get k c =
     (case map_of (element_list c) k of
        None \<Rightarrow> (None, c)
      | Some v \<Rightarrow> (Some v, c\<lparr>element_list := move_to_front k v (element_list c)\<rparr>))"

text \<open>
  Modelled from the spec: \<^verbatim>\<open>Cache::Add\<close>. Section 4.4: \<open>add(key, shape)\<close> gives the
  stored shape. When an entry for the key exists already, it is returned unchanged (one of
  the two behaviours the section allows). Otherwise, when the cache is full, the least
  recently used entry is removed before the insertion. (With the capacity 0 there is
  nothing to remove and the new entry is the only one.)
\<close>

definition Cache_Add :: "'h \<Rightarrow> Shape \<Rightarrow> 'h Cache \<Rightarrow> Shape \<times> 'h Cache" where
  "Cache_Add k v c =
     (case map_of (element_list c) k of
        Some v' \<Rightarrow> (v', c\<lparr>element_list := move_to_front k v' (element_list c)\<rparr>)
      | None \<Rightarrow>
          (v, c\<lparr>element_list :=
                  (k, v) # (if max_size c \<le> length (element_list c)
                            then butlast (element_list c) else element_list c)\<rparr>))"

subsection \<open>Process state and GetShapeCache\<close>

text \<open>
  The state outside a node that \<^verbatim>\<open>TsNode.cpp\<close> reads and writes: the environment that
  \<^verbatim>\<open>GetEnvInt\<close> consults, the function-local static \<^verbatim>\<open>cache\<close> of \<^verbatim>\<open>GetShapeCache\<close>
  (\<open>None\<close> until the first call initialises it), and \<open>ext\<close>, the state on which the
  \<^verbatim>\<open>shape_fn\<close> closures work. A \<^verbatim>\<open>std::function<Shape()>\<close> is a function from \<open>ext\<close>
  to a shape or a failure together with the new \<open>ext\<close>; that it was not run shows as an
  unchanged \<open>ext\<close>. The closures do not reach into the shape cache themselves.
\<close>

record ('h, 's) process =
  environ :: "string \<rightharpoonup> 64 word"
  shape_cache :: "'h Cache option"
  ext :: 's

type_synonym 's shape_fn = "'s \<Rightarrow> (error + Shape) \<times> 's"

text \<open>
  Modelled from the spec: \<^verbatim>\<open>lazy_tensors::sys_util::GetEnvInt\<close>. Section 6: the capacity
  is overridable by a named configuration value and has a default otherwise. The value is
  a \<^verbatim>\<open>lazy_tensors::int64\<close>: a 64-bit word that \<open>sint\<close> reads.
\<close>

definition GetEnvInt :: "(string \<rightharpoonup> 64 word) \<Rightarrow> string \<Rightarrow> 64 word \<Rightarrow> 64 word" where
  "GetEnvInt env name defval = (case env name of None \<Rightarrow> defval | Some v \<Rightarrow> v)"

text \<open>
  The two statics are initialised by the first call only. The constructor of the cache,
  outside the sources at hand, takes the capacity as an unsigned size; the signed setting
  becomes that size by the conversion to a 64-bit \<^verbatim>\<open>size_t\<close>, which keeps the bits
  (\<open>unat\<close>): a setting that is not negative is the capacity itself.
\<close>

definition GetShapeCache :: "('h, 's) process \<Rightarrow> 'h Cache \<times> ('h, 's) process" where
  "GetShapeCache w =
     (case shape_cache w of
        Some c \<Rightarrow> (c, w)
      | None \<Rightarrow>
          (let shape_cache_size = GetEnvInt (environ w) ''LTC_IR_SHAPE_CACHE_SIZE'' 4096;
               c = Cache_new (unat shape_cache_size)
           in (c, w\<lparr>shape_cache := Some c\<rparr>)))"

subsection \<open>GetOpShape, SetShapeDeferred and the constructor with a shape function\<close>

text \<open>
  \<^verbatim>\<open>shape_fn()\<close> is an argument of the call of \<^verbatim>\<open>Add\<close>, so it runs before \<^verbatim>\<open>Add\<close> and
  its exception leaves \<^verbatim>\<open>Add\<close> uncalled.
\<close>

definition GetOpShape ::
  "'s shape_fn \<Rightarrow> ('v, 'h) TsNode \<Rightarrow> ('h, 's) process \<Rightarrow> (error + Shape) \<times> ('h, 's) process" where
  "GetOpShape f n w =
     (let (c, w1) = GetShapeCache w;
          (found, c1) = Cache_Get (hash n) c;
          w2 = w1\<lparr>shape_cache := Some c1\<rparr>
      in case found of
           Some sh \<Rightarrow> (Inr sh, w2)
         | None \<Rightarrow>
             (case f (ext w2) of
                (Inl e, s') \<Rightarrow> (Inl e, w2\<lparr>ext := s'\<rparr>)
              | (Inr sh, s') \<Rightarrow>
                  (let (stored, c2) = Cache_Add (hash n) sh c1
                   in (Inr stored, w2\<lparr>shape_cache := Some c2, ext := s'\<rparr>))))"

text \<open>
  \<^verbatim>\<open>shape_ = GetOpShape(shape_fn)\<close>: when \<^verbatim>\<open>GetOpShape\<close> throws, the assignment does not
  happen and the caller keeps the node as it was.
\<close>

definition SetShapeDeferred ::
  "'s shape_fn \<Rightarrow> ('v, 'h) TsNode \<Rightarrow> ('h, 's) process \<Rightarrow> (error + ('v, 'h) TsNode) \<times> ('h, 's) process" where
  "SetShapeDeferred f n w =
     (case GetOpShape f n w of
        (Inl e, w') \<Rightarrow> (Inl e, w')
      | (Inr sh, w') \<Rightarrow> (Inr (n\<lparr>shape := sh\<rparr>), w'))"


subsection \<open>Access through the base class\<close>

text \<open>
  The object behind a \<^verbatim>\<open>Node\<close> pointer or reference is a \<^verbatim>\<open>TsNode\<close> or a node of
  another class; a pointer is \<open>None\<close> when null. \<^verbatim>\<open>dynamic_cast\<close> and
  \<^verbatim>\<open>std::dynamic_pointer_cast\<close> give null for a null pointer and for an object of
  another class. \<^verbatim>\<open>Output\<close> holds a plain pointer and \<^verbatim>\<open>Value\<close> a shared one; in the
  model both are a pointer and an index.
\<close>

datatype ('v, 'h) NodeObj = IsTsNode "('v, 'h) TsNode" | IsOtherNode "('v, 'h) Node"

type_synonym ('v, 'h) NodePtr = "('v, 'h) NodeObj option"

record ('v, 'h) Output =
  node :: "('v, 'h) NodePtr"
  index :: nat

type_synonym ('v, 'h) Value = "('v, 'h) Output"

fun dynamic_cast_TsNode :: "('v, 'h) NodePtr \<Rightarrow> ('v, 'h) TsNode option" where
  "dynamic_cast_TsNode None = None"
| "dynamic_cast_TsNode (Some (IsTsNode n)) = Some n"
| "dynamic_cast_TsNode (Some (IsOtherNode n)) = None"

definition GetShapeFromTsOutput :: "('v, 'h) Output \<Rightarrow> error + Shape" where
  "GetShapeFromTsOutput output =
     (case dynamic_cast_TsNode (node output) of
        Some tsnode \<Rightarrow> shape_at tsnode (index output)
      | None \<Rightarrow> Inl TypeMismatch)"

definition GetShapeFromTsValue :: "('v, 'h) Value \<Rightarrow> error + Shape" where
  "GetShapeFromTsValue val =
     (case dynamic_cast_TsNode (node val) of
        Some tsnode \<Rightarrow> shape_at tsnode (index val)
      | None \<Rightarrow> Inl TypeMismatch)"

definition GetShapeFromTsNode :: "('v, 'h) NodeObj \<Rightarrow> error + Shape" where
  "GetShapeFromTsNode nd =
     (case dynamic_cast_TsNode (Some nd) of
        Some tsnode \<Rightarrow> Inr (shape tsnode)
      | None \<Rightarrow> Inl TypeMismatch)"

definition TsNodeSetShapeDeferred ::
  "('v, 'h) NodePtr \<Rightarrow> 's shape_fn \<Rightarrow> ('h, 's) process \<Rightarrow> (error + ('v, 'h) NodePtr) \<times> ('h, 's) process" where
  "TsNodeSetShapeDeferred nd f w =
     (case dynamic_cast_TsNode nd of
        Some tsnode \<Rightarrow>
          (case SetShapeDeferred f tsnode w of
             (Inl e, w') \<Rightarrow> (Inl e, w')
           | (Inr tsnode', w') \<Rightarrow> (Inr (Some (IsTsNode tsnode')), w'))
      | None \<Rightarrow> (Inl TypeMismatch, w))"

section \<open>A concrete instance of the hash primitives\<close>

text \<open>
  Modelled from the spec: an instance of the primitives for evaluating the definitions at
  concrete inputs. Section 4.1 asks of \<open>combine\<close> that it be a deterministic,
  order-sensitive mixing function and says that a well-mixed 64-bit hash suffices;
  \<open>HashCombine64\<close> is the customary multiply, shift and xor mix on 64-bit words. Strings
  are hashed by a polynomial in 31, an \<^verbatim>\<open>OpKind\<close> by its qualified name, an integer by
  its value, and an operand is represented by the value of its \<^verbatim>\<open>hash()\<close>. Shapes are
  rendered with decimal dimensions.
\<close>

definition HashCombine64 :: "64 word \<Rightarrow> 64 word \<Rightarrow> 64 word" where
  "HashCombine64 a b =
     a XOR (b * 0x27d4eb2f165667c5 + 0x9e3779b97f4a7c15 + push_bit 6 a + drop_bit 2 a)"

definition Hash_string64 :: "string \<Rightarrow> 64 word" where
  "Hash_string64 s = fold (\<lambda>c h. h * 31 + of_nat (of_char c)) s 0"

fun nat_string :: "nat \<Rightarrow> string" where
  "nat_string n =
     (if n < 10 then [char_of (48 + n)] else nat_string (n div 10) @ [char_of (48 + n mod 10)])"

declare nat_string.simps [simp del]

definition int_string :: "int \<Rightarrow> string" where
  "int_string i = (if i < 0 then CHR ''-'' # nat_string (nat (- i)) else nat_string (nat i))"

fun Shape_string :: "Shape \<Rightarrow> string" where
  "Shape_string (LeafShape t ds) = t @ ''['' @ concat (map (\<lambda>d. int_string d @ '','') ds) @ '']''"
| "Shape_string (TupleShape ss) = ''('' @ concat (map Shape_string ss) @ '')''"

definition prims64 :: "(64 word, 64 word) prims" where
  "prims64 =
     \<lparr>HashCombine = HashCombine64,
      Hash_int = word_of_int,
      Hash_string = Hash_string64,
      OpKind_hash = (\<lambda>k. Hash_string64 (namespace k @ ''::'' @ op_name k)),
      Value_hash = (\<lambda>v. v),
      Shape_ToString = Shape_string\<rparr>"

text \<open>Concrete inputs: two operations, metadata, two leaf shapes, a fresh process and a leaf node.\<close>

definition aten_add :: OpKind where
  "aten_add = \<lparr>namespace = ''aten'', op_name = ''add''\<rparr>"

definition device_data :: OpKind where
  "device_data = \<lparr>namespace = ''lazy_tensors'', op_name = ''device_data''\<rparr>"

definition no_metadata :: MetaData where
  "no_metadata = \<lparr>scope = [], frame_info = []\<rparr>"

definition f32_4x4 :: Shape where
  "f32_4x4 = LeafShape ''f32'' [4, 4]"

definition s64_2x8 :: Shape where
  "s64_2x8 = LeafShape ''s64'' [2, 8]"

definition fresh_process :: "(64 word, nat) process" where
  "fresh_process = \<lparr>environ = Map.empty, shape_cache = None, ext = 0\<rparr>"

definition leaf_A :: "(64 word, 64 word) TsNode" where
  "leaf_A = TsNode_new_leaf prims64 False device_data f32_4x4 1 0 no_metadata"

section \<open>Observing the shape cache and running it\<close>

text \<open>
  \<open>cached w k\<close> is what a lookup of \<open>k\<close> in the shape cache of the process \<open>w\<close> finds,
  without the lookup's effect on the order of the entries.
\<close>

definition cached :: "('h, 's) process \<Rightarrow> 'h \<Rightarrow> Shape option" where
  "cached w k = map_of (element_list (fst (GetShapeCache w))) k"

text \<open>A sequence of calls of \<^verbatim>\<open>Get\<close> and \<^verbatim>\<open>Add\<close> on a cache, run in order.\<close>

datatype 'h cache_call = CallGet 'h | CallAdd 'h Shape

fun Cache_call :: "'h cache_call \<Rightarrow> 'h Cache \<Rightarrow> 'h Cache" where
  "Cache_call (CallGet k) c = snd (Cache_Get k c)"
| "Cache_call (CallAdd k v) c = snd (Cache_Add k v c)"

fun Cache_run :: "'h cache_call list \<Rightarrow> 'h Cache \<Rightarrow> 'h Cache" where
  "Cache_run [] c = c"
| "Cache_run (x # xs) c = Cache_run xs (Cache_call x c)"



text \<open>Shape functions for evaluation: they count their runs in \<open>ext\<close>.\<close>

definition counting_fn :: "Shape \<Rightarrow> nat shape_fn" where
  "counting_fn sh = (\<lambda>c. (Inr sh, Suc c))"

definition failing_fn :: "nat shape_fn" where
  "failing_fn = (\<lambda>c. (Inl InferenceFailure, Suc c))"

text \<open>
  The binary node over \<open>leaf_A\<close> twice with seed 5: once with a shape given to the
  constructor, once without.
\<close>

definition binary_B :: "(64 word, 64 word) TsNode" where
  "binary_B = TsNode_new prims64 aten_add [hash leaf_A, hash leaf_A] f32_4x4 1 5 no_metadata"

definition unshaped_B :: "(64 word, 64 word) TsNode" where
  "unshaped_B = TsNode_new_unshaped prims64 aten_add [hash leaf_A, hash leaf_A] 1 5 no_metadata"



section \<open>Selectors of the constructors\<close>

lemma TsNode_new_sel:
  "op (TsNode_new P opk ops sh n hash_seed md) = opk"
  "operands (TsNode_new P opk ops sh n hash_seed md) = ops"
  "num_outputs (TsNode_new P opk ops sh n hash_seed md) = n"
  "node_hash (TsNode_new P opk ops sh n hash_seed md) = HashCombine P (OpKind_hash P opk) hash_seed"
  "dag_hash (TsNode_new P opk ops sh n hash_seed md) =
     OperandHashes P ops (HashCombine P (OpKind_hash P opk) hash_seed)"
  "metadata (TsNode_new P opk ops sh n hash_seed md) = md"
  "shape (TsNode_new P opk ops sh n hash_seed md) = sh"
  by (simp_all add: TsNode_new_def Node_new_def Node.extend_def TsNode.fields_def)

lemma TsNode_new_leaf_sel:
  "op (TsNode_new_leaf P dyn opk sh n hash_seed md) = opk"
  "operands (TsNode_new_leaf P dyn opk sh n hash_seed md) = []"
  "num_outputs (TsNode_new_leaf P dyn opk sh n hash_seed md) = n"
  "node_hash (TsNode_new_leaf P dyn opk sh n hash_seed md) = GetOpHash P dyn opk sh hash_seed"
  "dag_hash (TsNode_new_leaf P dyn opk sh n hash_seed md) = GetOpHash P dyn opk sh hash_seed"
  "metadata (TsNode_new_leaf P dyn opk sh n hash_seed md) = md"
  "shape (TsNode_new_leaf P dyn opk sh n hash_seed md) = sh"
  by (simp_all add: TsNode_new_leaf_def Node_new_leaf_def Node.extend_def TsNode.fields_def)

lemma OperandHashes_foldl:
  "OperandHashes P ops seed =
     foldl (\<lambda>acc operand. HashCombine P acc (Value_hash P operand)) seed ops"
  by (induction ops arbitrary: seed) simp_all

lemmas prims64_eval =
  prims64_def HashCombine64_def Hash_string64_def int_string_def nat_string.simps
  aten_add_def device_data_def f32_4x4_def s64_2x8_def no_metadata_def

lemma hash_leaf_A: "hash leaf_A = 0xE3788F6BB3C92F17"
  by (simp add: leaf_A_def hash_def TsNode_new_leaf_sel GetOpHash_def prims64_eval)

section \<open>Node hash and dag hash (C1)\<close>

text \<open>
  C1, as the code has it. The constructor, with a shape or without one, stores
  \<open>node_hash = HashCombine(op.hash(), hash_seed)\<close> and
  \<open>dag_hash = OperandHashes(operands, node_hash)\<close>: the left fold over the operands, in
  order, that starts from the node hash and combines the accumulator with each operand's
  \<open>hash()\<close>. The result of the fold is the dag hash; it is not combined with the node
  hash once more.
\<close>

theorem C1_node_hash_and_dag_hash:
  "node_hash (TsNode_new P opk ops sh n hash_seed md) = HashCombine P (OpKind_hash P opk) hash_seed
   \<and> dag_hash (TsNode_new P opk ops sh n hash_seed md) =
       foldl (\<lambda>acc operand. HashCombine P acc (Value_hash P operand))
         (node_hash (TsNode_new P opk ops sh n hash_seed md)) ops
   \<and> node_hash (TsNode_new_unshaped P opk ops n hash_seed md) =
       HashCombine P (OpKind_hash P opk) hash_seed
   \<and> dag_hash (TsNode_new_unshaped P opk ops n hash_seed md) =
       foldl (\<lambda>acc operand. HashCombine P acc (Value_hash P operand))
         (node_hash (TsNode_new_unshaped P opk ops n hash_seed md)) ops"
  by (simp add: TsNode_new_unshaped_def TsNode_new_sel OperandHashes_foldl)

text \<open>
  C1 as stated fails: for the binary node over the leaf \<open>leaf_A\<close> twice, with seed 5, the
  stored dag hash differs from the node hash combined with the fold.
\<close>

theorem C1_extra_combine_counterexample:
  "dag_hash (TsNode_new prims64 aten_add [hash leaf_A, hash leaf_A] f32_4x4 1 5 no_metadata) \<noteq>
   HashCombine prims64
     (node_hash (TsNode_new prims64 aten_add [hash leaf_A, hash leaf_A] f32_4x4 1 5 no_metadata))
     (foldl (\<lambda>acc operand. HashCombine prims64 acc (Value_hash prims64 operand))
        (node_hash (TsNode_new prims64 aten_add [hash leaf_A, hash leaf_A] f32_4x4 1 5 no_metadata))
        [hash leaf_A, hash leaf_A])"
  by (simp add: TsNode_new_sel hash_leaf_A) (simp add: prims64_eval)

section \<open>The shape cache behind GetOpShape\<close>

lemma GetShapeCache_snd:
  "snd (GetShapeCache w) = w\<lparr>shape_cache := Some (fst (GetShapeCache w))\<rparr>"
  by (simp add: GetShapeCache_def Let_def split: option.splits)

lemma GetShapeCache_installed:
  "GetShapeCache (w\<lparr>shape_cache := Some c\<rparr>) = (c, w\<lparr>shape_cache := Some c\<rparr>)"
  by (simp add: GetShapeCache_def)

lemma GetShapeCache_ext:
  "fst (GetShapeCache (w\<lparr>ext := s\<rparr>)) = fst (GetShapeCache w)"
  by (simp add: GetShapeCache_def Let_def split: option.splits)

text \<open>
  \<open>GetOpShape\<close> in terms of the cache that \<open>GetShapeCache\<close> hands out: a hit moves the
  entry to the front; a miss runs the shape function and, when that returns, inserts its
  result.
\<close>

lemma GetOpShape_unfold:
  "GetOpShape f n w =
     (let c = fst (GetShapeCache w) in
      case map_of (element_list c) (hash n) of
        Some sh \<Rightarrow>
          (Inr sh,
           w\<lparr>shape_cache := Some (c\<lparr>element_list := move_to_front (hash n) sh (element_list c)\<rparr>)\<rparr>)
      | None \<Rightarrow>
          (case f (ext w) of
             (Inl e, s') \<Rightarrow> (Inl e, w\<lparr>shape_cache := Some c, ext := s'\<rparr>)
           | (Inr sh, s') \<Rightarrow>
               (Inr sh,
                w\<lparr>shape_cache := Some (c\<lparr>element_list :=
                     (hash n, sh) # (if max_size c \<le> length (element_list c)
                                     then butlast (element_list c) else element_list c)\<rparr>),
                  ext := s'\<rparr>)))"
proof -
  obtain c w1 where g: "GetShapeCache w = (c, w1)"
    by (cases "GetShapeCache w")
  with GetShapeCache_snd [of w] have w1: "w1 = w\<lparr>shape_cache := Some c\<rparr>"
    by simp
  show ?thesis
    by (simp add: GetOpShape_def g w1 Cache_Get_def Cache_Add_def Let_def
        split: option.splits prod.splits sum.splits)
qed


lemma GetOpShape_miss_ok:
  assumes "cached w (hash n) = None" and "f (ext w) = (Inr sh, s')"
  shows "fst (GetOpShape f n w) = Inr sh"
    and "ext (snd (GetOpShape f n w)) = s'"
    and "cached (snd (GetOpShape f n w)) (hash n) = Some sh"
  using assms
  by (simp_all add: GetOpShape_unfold cached_def Let_def GetShapeCache_installed GetShapeCache_ext)

lemma GetOpShape_miss_fail:
  assumes "cached w (hash n) = None" and "f (ext w) = (Inl e, s')"
  shows "fst (GetOpShape f n w) = Inl e"
    and "ext (snd (GetOpShape f n w)) = s'"
    and "fst (GetShapeCache (snd (GetOpShape f n w))) = fst (GetShapeCache w)"
  using assms
  by (simp_all add: GetOpShape_unfold cached_def Let_def GetShapeCache_installed GetShapeCache_ext)

lemma GetOpShape_Inl:
  assumes "GetOpShape f n w = (Inl e, w')"
  shows "cached w (hash n) = None" and "fst (f (ext w)) = Inl e"
    and "w' = w\<lparr>shape_cache := Some (fst (GetShapeCache w)), ext := snd (f (ext w))\<rparr>"
  using assms
  by (auto simp: GetOpShape_unfold cached_def Let_def split: option.splits prod.splits sum.splits)


lemma SetShapeDeferred_unfold:
  "SetShapeDeferred f n w =
     (case fst (GetOpShape f n w) of
        Inl e \<Rightarrow> (Inl e, snd (GetOpShape f n w))
      | Inr sh \<Rightarrow> (Inr (n\<lparr>shape := sh\<rparr>), snd (GetOpShape f n w)))"
  by (simp add: SetShapeDeferred_def split: prod.splits sum.splits)

lemma SetShapeDeferred_Inr:
  assumes "SetShapeDeferred f n w = (Inr n', w')"
  shows "GetOpShape f n w = (Inr (shape n'), w')" and "n' = n\<lparr>shape := shape n'\<rparr>"
  using assms by (auto simp: SetShapeDeferred_def split: prod.splits sum.splits)

lemma SetShapeDeferred_Inl:
  assumes "SetShapeDeferred f n w = (Inl e, w')"
  shows "GetOpShape f n w = (Inl e, w')"
  using assms by (auto simp: SetShapeDeferred_def split: prod.splits sum.splits)


lemma cached_fresh_process: "cached fresh_process k = None"
  by (simp add: cached_def GetShapeCache_def fresh_process_def Cache_new_def GetEnvInt_def Let_def)

section \<open>Indexed shape access (C4)\<close>

text \<open>
  C4. For every node and index: when the stored shape is a tuple, \<open>shape(index)\<close> is the
  \<open>index\<close>-th element of the tuple and fails with IndexOutOfRange when the index is at
  least the arity; when the stored shape is a leaf, it is that shape for index 0 and
  fails with InvalidArgument for every other index.
\<close>

theorem C4_shape_at:
  "(shape n = TupleShape ss \<longrightarrow>
      shape_at n i = (if i < length ss then Inr (ss ! i) else Inl IndexOutOfRange))
   \<and> (shape n = LeafShape t ds \<longrightarrow>
      shape_at n i = (if i = 0 then Inr (shape n) else Inl InvalidArgument))"
  by (simp add: shape_at_def)

text \<open>
  The example of the specification: a node with three outputs and a tuple of three leaf
  shapes answers the indices 0, 1 and 2 and fails for 3; a node with a leaf shape answers
  index 0 only.
\<close>

theorem C4_shape_at_witness:
  "shape_at (TsNode_new prims64 aten_add [] (TupleShape [f32_4x4, s64_2x8, f32_4x4]) 3 0 no_metadata) 0
     = Inr f32_4x4
   \<and> shape_at (TsNode_new prims64 aten_add [] (TupleShape [f32_4x4, s64_2x8, f32_4x4]) 3 0 no_metadata) 1
     = Inr s64_2x8
   \<and> shape_at (TsNode_new prims64 aten_add [] (TupleShape [f32_4x4, s64_2x8, f32_4x4]) 3 0 no_metadata) 2
     = Inr f32_4x4
   \<and> shape_at (TsNode_new prims64 aten_add [] (TupleShape [f32_4x4, s64_2x8, f32_4x4]) 3 0 no_metadata) 3
     = Inl IndexOutOfRange
   \<and> shape_at leaf_A 0 = Inr f32_4x4
   \<and> shape_at leaf_A 1 = Inl InvalidArgument"
  using
    C4_shape_at [of "TsNode_new prims64 aten_add [] (TupleShape [f32_4x4, s64_2x8, f32_4x4]) 3 0 no_metadata"
      "[f32_4x4, s64_2x8, f32_4x4]" 0 "''f32''" "[4, 4]"]
    C4_shape_at [of "TsNode_new prims64 aten_add [] (TupleShape [f32_4x4, s64_2x8, f32_4x4]) 3 0 no_metadata"
      "[f32_4x4, s64_2x8, f32_4x4]" 1 "''f32''" "[4, 4]"]
    C4_shape_at [of "TsNode_new prims64 aten_add [] (TupleShape [f32_4x4, s64_2x8, f32_4x4]) 3 0 no_metadata"
      "[f32_4x4, s64_2x8, f32_4x4]" 2 "''f32''" "[4, 4]"]
    C4_shape_at [of "TsNode_new prims64 aten_add [] (TupleShape [f32_4x4, s64_2x8, f32_4x4]) 3 0 no_metadata"
      "[f32_4x4, s64_2x8, f32_4x4]" 3 "''f32''" "[4, 4]"]
    C4_shape_at [of leaf_A "[]" 0 "''f32''" "[4, 4]"]
    C4_shape_at [of leaf_A "[]" 1 "''f32''" "[4, 4]"]
  by (simp add: TsNode_new_sel TsNode_new_leaf_sel leaf_A_def f32_4x4_def s64_2x8_def)

section \<open>Access through the base class (C8)\<close>

text \<open>
  C8. A \<^verbatim>\<open>Node\<close> pointer that is null or points to a node of another class makes the
  shape retrieval from an \<^verbatim>\<open>Output\<close> and from a \<^verbatim>\<open>Value\<close> and the deferred shape
  resolution through a node pointer fail with TypeMismatch, and so does the shape
  retrieval from a reference to a node of another class. The failed resolution leaves
  the process as it was, so its shape function is not run.
\<close>

theorem C8_not_a_TsNode_fails:
  "GetShapeFromTsOutput \<lparr>node = Some (IsOtherNode b), index = i\<rparr> = Inl TypeMismatch
   \<and> GetShapeFromTsOutput \<lparr>node = None, index = i\<rparr> = Inl TypeMismatch
   \<and> GetShapeFromTsValue \<lparr>node = Some (IsOtherNode b), index = i\<rparr> = Inl TypeMismatch
   \<and> GetShapeFromTsValue \<lparr>node = None, index = i\<rparr> = Inl TypeMismatch
   \<and> GetShapeFromTsNode (IsOtherNode b) = Inl TypeMismatch
   \<and> TsNodeSetShapeDeferred (Some (IsOtherNode b)) f w = (Inl TypeMismatch, w)
   \<and> TsNodeSetShapeDeferred None f w = (Inl TypeMismatch, w)"
  by (simp add: GetShapeFromTsOutput_def GetShapeFromTsValue_def GetShapeFromTsNode_def
      TsNodeSetShapeDeferred_def)

section \<open>Hash of a leaf node (C9)\<close>

text \<open>
  C9. In dynamic-shape mode \<open>GetOpHash\<close> sees the shape through its rank only: two shapes
  of equal rank give equal hashes, and leaf nodes built from them with the same operation
  and seed have equal node hashes, whatever their dimensions and element types. Outside
  dynamic mode the hash is made from the hash of the shape's string rendering.
\<close>

theorem C9_leaf_hash_dynamic_mode:
  "(rank sh1 = rank sh2 \<longrightarrow>
      GetOpHash P True opk sh1 hash_seed = GetOpHash P True opk sh2 hash_seed
      \<and> node_hash (TsNode_new_leaf P True opk sh1 n1 hash_seed md1) =
          node_hash (TsNode_new_leaf P True opk sh2 n2 hash_seed md2))
   \<and> GetOpHash P False opk sh hash_seed =
       HashCombine P
         (HashCombine P (OpKind_hash P opk) (Hash_string P (Shape_ToString P sh))) hash_seed
   \<and> node_hash (TsNode_new_leaf P False opk sh n hash_seed md) =
       HashCombine P
         (HashCombine P (OpKind_hash P opk) (Hash_string P (Shape_ToString P sh))) hash_seed"
  by (simp add: GetOpHash_def TsNode_new_leaf_sel)

text \<open>
  Two leaves of rank 2 with different dimensions and element types: equal node hashes in
  dynamic mode, different ones outside it.
\<close>

theorem C9_leaf_hash_dynamic_mode_witness:
  "rank f32_4x4 = rank s64_2x8
   \<and> f32_4x4 \<noteq> s64_2x8
   \<and> node_hash (TsNode_new_leaf prims64 True device_data f32_4x4 1 0 no_metadata) =
       node_hash (TsNode_new_leaf prims64 True device_data s64_2x8 1 0 no_metadata)
   \<and> node_hash (TsNode_new_leaf prims64 False device_data f32_4x4 1 0 no_metadata) \<noteq>
       node_hash (TsNode_new_leaf prims64 False device_data s64_2x8 1 0 no_metadata)"
proof -
  have r: "rank f32_4x4 = rank s64_2x8"
    by (simp add: f32_4x4_def s64_2x8_def)
  have d: "f32_4x4 \<noteq> s64_2x8"
    by (simp add: f32_4x4_def s64_2x8_def)
  have e: "node_hash (TsNode_new_leaf prims64 True device_data f32_4x4 1 0 no_metadata) =
       node_hash (TsNode_new_leaf prims64 True device_data s64_2x8 1 0 no_metadata)"
    using C9_leaf_hash_dynamic_mode [of f32_4x4 s64_2x8 prims64 device_data 0 1 no_metadata 1 no_metadata]
      r by simp
  have n: "node_hash (TsNode_new_leaf prims64 False device_data f32_4x4 1 0 no_metadata) \<noteq>
       node_hash (TsNode_new_leaf prims64 False device_data s64_2x8 1 0 no_metadata)"
    by (simp add: TsNode_new_leaf_sel GetOpHash_def) (simp add: prims64_eval)
  from r d e n show ?thesis by simp
qed

section \<open>Frame of the deferred shape resolution (C10)\<close>

text \<open>
  C10. A deferred shape resolution that returns has changed the stored shape only: the
  operation, the operands, the number of outputs, the node hash, the dag hash and the
  metadata of the node are what they were, and \<open>hash()\<close> gives the same value before and
  after.
\<close>

theorem C10_SetShapeDeferred_frame:
  "SetShapeDeferred f n w = (Inr n', w') \<Longrightarrow>
     op n' = op n \<and> operands n' = operands n \<and> num_outputs n' = num_outputs n
     \<and> node_hash n' = node_hash n \<and> dag_hash n' = dag_hash n \<and> metadata n' = metadata n
     \<and> hash n' = hash n"
proof -
  assume "SetShapeDeferred f n w = (Inr n', w')"
  then have "n' = n\<lparr>shape := shape n'\<rparr>"
    by (rule SetShapeDeferred_Inr)
  then obtain sh where n': "n' = n\<lparr>shape := sh\<rparr>" ..
  show ?thesis
    by (simp add: n' hash_def)
qed

text \<open>
  The resolution of \<open>binary_B\<close> on a fresh process returns the node with the new shape
  and everything else as it was.
\<close>

theorem C10_SetShapeDeferred_frame_witness:
  "fst (SetShapeDeferred (counting_fn s64_2x8) binary_B fresh_process)
       = Inr (binary_B\<lparr>shape := s64_2x8\<rparr>)
   \<and> op (binary_B\<lparr>shape := s64_2x8\<rparr>) = op binary_B
   \<and> operands (binary_B\<lparr>shape := s64_2x8\<rparr>) = operands binary_B
   \<and> num_outputs (binary_B\<lparr>shape := s64_2x8\<rparr>) = num_outputs binary_B
   \<and> node_hash (binary_B\<lparr>shape := s64_2x8\<rparr>) = node_hash binary_B
   \<and> dag_hash (binary_B\<lparr>shape := s64_2x8\<rparr>) = dag_hash binary_B
   \<and> metadata (binary_B\<lparr>shape := s64_2x8\<rparr>) = metadata binary_B
   \<and> hash (binary_B\<lparr>shape := s64_2x8\<rparr>) = hash binary_B"
proof -
  let ?f = "counting_fn s64_2x8"
  have m: "cached fresh_process (hash binary_B) = None"
    by (rule cached_fresh_process)
  have r: "?f (ext fresh_process) = (Inr s64_2x8, 1)"
    by (simp add: counting_fn_def fresh_process_def)
  have first: "fst (SetShapeDeferred ?f binary_B fresh_process) = Inr (binary_B\<lparr>shape := s64_2x8\<rparr>)"
    by (simp add: SetShapeDeferred_unfold GetOpShape_miss_ok [where f = ?f, OF m r])
  then have p: "SetShapeDeferred ?f binary_B fresh_process
      = (Inr (binary_B\<lparr>shape := s64_2x8\<rparr>), snd (SetShapeDeferred ?f binary_B fresh_process))"
    by (simp add: prod_eq_iff)
  from C10_SetShapeDeferred_frame [OF p] first show ?thesis
    by simp
qed

section \<open>Memoised shape resolution (C2)\<close>



section \<open>A failed shape function (C5)\<close>

text \<open>
  C5. When a deferred shape resolution fails, the failure is the one of the shape
  function, the shape cache is what it was before the call and has no entry for the
  node's hash, and a later resolution for a node of the same hash runs its own shape
  function: its outcome is that function's outcome and \<open>ext\<close> is the state that one run
  of it leaves.
\<close>

theorem C5_failed_shape_fn_does_not_poison:
  "SetShapeDeferred f n w = (Inl e, w') \<Longrightarrow>
     fst (f (ext w)) = Inl e
     \<and> fst (GetShapeCache w') = fst (GetShapeCache w)
     \<and> cached w' (hash n) = None
     \<and> (hash n2 = hash n \<longrightarrow>
          fst (SetShapeDeferred g n2 w') =
            (case fst (g (ext w')) of Inl e' \<Rightarrow> Inl e' | Inr sh \<Rightarrow> Inr (n2\<lparr>shape := sh\<rparr>))
          \<and> ext (snd (SetShapeDeferred g n2 w')) = snd (g (ext w')))"
proof -
  assume "SetShapeDeferred f n w = (Inl e, w')"
  then have fail: "GetOpShape f n w = (Inl e, w')"
    by (rule SetShapeDeferred_Inl)
  note miss = GetOpShape_Inl(1) [OF fail]
  have err: "fst (f (ext w)) = Inl e"
    by (rule GetOpShape_Inl(2) [OF fail])
  then have run: "f (ext w) = (Inl e, snd (f (ext w)))"
    by (simp add: prod_eq_iff)
  have same: "fst (GetShapeCache w') = fst (GetShapeCache w)"
    using GetOpShape_miss_fail(3) [where f = f, OF miss run] fail by simp
  from miss same have miss': "cached w' (hash n) = None"
    by (simp add: cached_def)
  have later: "fst (SetShapeDeferred g n2 w') =
      (case fst (g (ext w')) of Inl e' \<Rightarrow> Inl e' | Inr sh \<Rightarrow> Inr (n2\<lparr>shape := sh\<rparr>))
      \<and> ext (snd (SetShapeDeferred g n2 w')) = snd (g (ext w'))"
    if h: "hash n2 = hash n"
  proof (cases "g (ext w')")
    case (Pair r s)
    from miss' h have m2: "cached w' (hash n2) = None"
      by simp
    show ?thesis
    proof (cases r)
      case (Inl e')
      with Pair have "g (ext w') = (Inl e', s)" by simp
      from GetOpShape_miss_fail(1,2) [where f = g, OF m2 this] Pair Inl show ?thesis
        by (simp add: SetShapeDeferred_unfold)
    next
      case (Inr sh)
      with Pair have "g (ext w') = (Inr sh, s)" by simp
      from GetOpShape_miss_ok(1,2) [where f = g, OF m2 this] Pair Inr show ?thesis
        by (simp add: SetShapeDeferred_unfold)
    qed
  qed
  from err same miss' later show ?thesis
    by simp
qed

text \<open>
  On a fresh process the failing shape function makes the resolution for \<open>unshaped_B\<close>
  fail with its InferenceFailure; the cache stays empty, and the next resolution for a node
  of the same hash runs its own shape function (the counter reaches 2) and gets its shape.
\<close>

theorem C5_failed_shape_fn_does_not_poison_witness:
  "fst (SetShapeDeferred failing_fn unshaped_B fresh_process) = Inl InferenceFailure
   \<and> ext (snd (SetShapeDeferred failing_fn unshaped_B fresh_process)) = 1
   \<and> element_list (fst (GetShapeCache (snd (SetShapeDeferred failing_fn unshaped_B fresh_process)))) = []
   \<and> hash binary_B = hash unshaped_B
   \<and> fst (SetShapeDeferred (counting_fn s64_2x8) binary_B
            (snd (SetShapeDeferred failing_fn unshaped_B fresh_process)))
       = Inr (binary_B\<lparr>shape := s64_2x8\<rparr>)
   \<and> ext (snd (SetShapeDeferred (counting_fn s64_2x8) binary_B
            (snd (SetShapeDeferred failing_fn unshaped_B fresh_process)))) = 2"
proof -
  let ?w1 = "snd (SetShapeDeferred failing_fn unshaped_B fresh_process)"
  have m: "cached fresh_process (hash unshaped_B) = None"
    by (rule cached_fresh_process)
  have r: "failing_fn (ext fresh_process) = (Inl InferenceFailure, 1)"
    by (simp add: failing_fn_def fresh_process_def)
  have first: "fst (SetShapeDeferred failing_fn unshaped_B fresh_process) = Inl InferenceFailure"
    and e1: "ext ?w1 = 1"
    by (simp_all add: SetShapeDeferred_unfold GetOpShape_miss_fail [where f = failing_fn, OF m r])
  from first have p1: "SetShapeDeferred failing_fn unshaped_B fresh_process = (Inl InferenceFailure, ?w1)"
    by (simp add: prod_eq_iff)
  have h: "hash binary_B = hash unshaped_B"
    by (simp add: hash_def binary_B_def unshaped_B_def TsNode_new_unshaped_def TsNode_new_sel)
  have empty: "element_list (fst (GetShapeCache fresh_process)) = []"
    by (simp add: GetShapeCache_def fresh_process_def Cache_new_def Let_def)
  from C5_failed_shape_fn_does_not_poison
    [OF p1, of binary_B "counting_fn s64_2x8"] h e1 empty first
  show ?thesis
    by (simp add: counting_fn_def)
qed

section \<open>Stability of a resolved shape (C3)\<close>




section \<open>Capacity of the shape cache (C6)\<close>


lemma Cache_call_max_size: "max_size (Cache_call x c) = max_size c"
  by (cases x) (simp_all add: Cache_Get_def Cache_Add_def split: option.splits)



lemma Cache_run_max_size: "max_size (Cache_run xs c) = max_size c"
  by (induction xs arbitrary: c) (simp_all add: Cache_call_max_size)















section \<open>Determinism and seed sensitivity of the hash (C7)\<close>







text \<open>
  Why the accumulator must be injective for a node over operands: \<open>HashCombine64\<close> is
  not, and two seeds chosen for it give the same hash once one operand is folded in.
\<close>

lemma HashCombine64_seed_collision:
  "(12101453974347209828 :: 64 word) \<noteq> 6620000308187122547
   \<and> hash (TsNode_new prims64 aten_add [2569532463634066431] f32_4x4 1
             12101453974347209828 no_metadata) =
     hash (TsNode_new prims64 aten_add [2569532463634066431] f32_4x4 1
             6620000308187122547 no_metadata)"
  by (simp add: hash_def TsNode_new_sel) (simp add: prims64_eval)

end
